theory Spec2Isabelle
  imports Complex_Main
begin

section \<open>JavaScript strings\<close>

text \<open>
  A JavaScript string is a sequence of UTF-16 code units. The model uses \<^typ>\<open>string\<close>
  and reads every \<^typ>\<open>char\<close> as the code unit of the same number, so it covers the
  strings over U+0000 .. U+00FF. On that range \<open>String.prototype.trim\<close> removes
  TAB, LF, VT, FF, CR, SPACE and NO-BREAK SPACE, and \<open>toLowerCase\<close> moves
  \<open>A-Z\<close> and U+00C0 .. U+00DE (without the multiplication sign U+00D7) up by 32.
\<close>

abbreviation dq :: char where
  "dq \<equiv> CHR 0x22"

definition isWhiteSpace :: "char \<Rightarrow> bool" where
  "isWhiteSpace c \<longleftrightarrow>
     c = CHR 0x09 \<or> c = CHR 0x0A \<or> c = CHR 0x0B \<or> c = CHR 0x0C \<or> c = CHR 0x0D \<or>
     c = CHR 0x20 \<or> c = CHR 0xA0"

definition trim :: "string \<Rightarrow> string" where
  "trim s = rev (dropWhile isWhiteSpace (rev (dropWhile isWhiteSpace s)))"

definition toLowerChar :: "char \<Rightarrow> char" where
  "toLowerChar c =
     (let n = (of_char c :: nat)
      in if (65 \<le> n \<and> n \<le> 90) \<or> (192 \<le> n \<and> n \<le> 222 \<and> n \<noteq> 215)
         then char_of (n + 32) else c)"

definition toLowerCase :: "string \<Rightarrow> string" where
  "toLowerCase s = map toLowerChar s"

fun startsWith :: "string \<Rightarrow> string \<Rightarrow> bool" where
  "startsWith s [] = True"
| "startsWith [] (p # ps) = False"
| "startsWith (c # cs) (p # ps) = (c = p \<and> startsWith cs ps)"

fun includes_str :: "string \<Rightarrow> string \<Rightarrow> bool" where
  "includes_str [] p = (p = [])"
| "includes_str (c # cs) p = (startsWith (c # cs) p \<or> includes_str cs p)"

definition isDigit :: "char \<Rightarrow> bool" where
  "isDigit c \<longleftrightarrow> 48 \<le> (of_char c :: nat) \<and> (of_char c :: nat) \<le> 57"

definition digitVal :: "char \<Rightarrow> nat" where
  "digitVal c = of_char c - 48"


section \<open>\<open>String.prototype.replace\<close> with a regular expression\<close>

text \<open>
  \<open>getSubstitution matched pre post captures template\<close> is the abstract operation
  GetSubstitution of ECMAScript for a regular expression without named groups: in the
  replacement template \<open>$$\<close> stands for a dollar sign, \<open>$&\<close> for the matched text,
  \<open>$`\<close> for the text before the match, \<open>$'\<close> for the text after it, and \<open>$n\<close>,
  \<open>$nn\<close> for the capture of that number when the expression has one (a two-digit
  number beyond the last group is read as one digit and a literal digit). Every other
  dollar sign is literal.
\<close>

fun getSubstitution :: "string \<Rightarrow> string \<Rightarrow> string \<Rightarrow> string list \<Rightarrow> string \<Rightarrow> string" where
  "getSubstitution m pre post caps [] = []"
| "getSubstitution m pre post caps [c] = [c]"
| "getSubstitution m pre post caps (c # d # t) =
     (if c \<noteq> CHR ''$'' then c # getSubstitution m pre post caps (d # t)
      else if d = CHR ''$'' then CHR ''$'' # getSubstitution m pre post caps t
      else if d = CHR ''&'' then m @ getSubstitution m pre post caps t
      else if d = CHR 0x60 then pre @ getSubstitution m pre post caps t
      else if d = CHR 0x27 then post @ getSubstitution m pre post caps t
      else if isDigit d then
        (case t of
           [] \<Rightarrow>
             (if 1 \<le> digitVal d \<and> digitVal d \<le> length caps
              then caps ! (digitVal d - 1) else [c, d])
         | e # t' \<Rightarrow>
             (if isDigit e \<and> 10 * digitVal d + digitVal e \<le> length caps
              then (if 1 \<le> 10 * digitVal d + digitVal e
                    then caps ! (10 * digitVal d + digitVal e - 1)
                           @ getSubstitution m pre post caps t'
                    else c # d # e # getSubstitution m pre post caps t')
              else if 1 \<le> digitVal d \<and> digitVal d \<le> length caps
              then caps ! (digitVal d - 1) @ getSubstitution m pre post caps (e # t')
              else c # d # getSubstitution m pre post caps (e # t')))
      else c # getSubstitution m pre post caps (d # t))"

text \<open>
  \<open>has_pattern t\<close>: the template holds one of the replacement patterns that every
  expression has, \<open>$$\<close>, \<open>$&\<close>, \<open>$`\<close> or \<open>$'\<close>.
\<close>

fun has_pattern :: "string \<Rightarrow> bool" where
  "has_pattern [] = False"
| "has_pattern [c] = False"
| "has_pattern (c # d # t) =
     ((c = CHR ''$'' \<and> (d = CHR ''$'' \<or> d = CHR ''&'' \<or> d = CHR 0x60 \<or> d = CHR 0x27))
      \<or> has_pattern (d # t))"

text \<open>
  The expressions \<open>NAME="[^"]*"\<close> and \<open><svg([^>]*)>\<close> of the source are sequences of
  literal code units and one greedy star over a negated class. \<open>rx_match\<close> is the
  backtracking matcher of ECMAScript for such a sequence, anchored at the start of the
  text: the star first takes as much as it can and gives back one code unit at a time
  while the rest of the sequence fails. The result is the length of the match.
\<close>

datatype rx_atom = Lit char | StarNot char

fun rx_match :: "rx_atom list \<Rightarrow> string \<Rightarrow> nat option" where
  "rx_match [] s = Some 0"
| "rx_match (Lit c # ps) [] = None"
| "rx_match (Lit c # ps) (x # xs) = (if x = c then map_option Suc (rx_match ps xs) else None)"
| "rx_match (StarNot c # ps) [] = rx_match ps []"
| "rx_match (StarNot c # ps) (x # xs) =
     (if x \<noteq> c
      then (case rx_match (StarNot c # ps) xs of
              Some n \<Rightarrow> Some (Suc n)
            | None \<Rightarrow> rx_match ps (x # xs))
      else rx_match ps (x # xs))"

text \<open>
  For \<open>replace\<close> a regular expression is modelled by its matcher at the start of a
  text: the length of the match and the captures, or \<open>None\<close>. In both expressions the
  greedy star is followed by the excluded character, so the match takes the longest run
  and needs that character next; no shorter run can match (lemmas \<open>match_attr_regex\<close>
  and \<open>match_svg_tag_regex\<close> below compare the two matchers with \<open>rx_match\<close>).
\<close>

type_synonym matcher = "string \<Rightarrow> (nat \<times> string list) option"

definition match_attr :: "string \<Rightarrow> matcher" where
  "match_attr a s =
     (let p = a @ ''='' @ [dq]
      in if startsWith s p
         then (let v = takeWhile (\<lambda>c. c \<noteq> dq) (drop (length p) s)
               in if length p + length v < length s
                  then Some (length p + length v + 1, []) else None)
         else None)"

definition match_svg_tag :: matcher where
  "match_svg_tag s =
     (if startsWith s ''<svg''
      then (let v = takeWhile (\<lambda>c. c \<noteq> CHR ''>'') (drop 4 s)
            in if 4 + length v < length s
               then Some (4 + length v + 1, [v]) else None)
      else None)"

text \<open>
  \<open>replace\<close> with an expression without the \<open>g\<close> flag rewrites the leftmost match only;
  \<open>pre\<close> is the text already passed, which \<open>$`\<close> refers to.
\<close>

fun replaceFirst :: "matcher \<Rightarrow> string \<Rightarrow> string \<Rightarrow> string \<Rightarrow> string" where
  "replaceFirst rx tmpl pre [] =
     (case rx [] of
        None \<Rightarrow> []
      | Some (n, caps) \<Rightarrow> getSubstitution [] pre [] caps tmpl)"
| "replaceFirst rx tmpl pre (c # cs) =
     (case rx (c # cs) of
        None \<Rightarrow> c # replaceFirst rx tmpl (pre @ [c]) cs
      | Some (n, caps) \<Rightarrow>
          getSubstitution (take n (c # cs)) pre (drop n (c # cs)) caps tmpl @ drop n (c # cs))"

text \<open>
  With the \<open>g\<close> flag every match is rewritten, the search going on after each match (one
  code unit further after an empty match).
\<close>

function replaceAll :: "matcher \<Rightarrow> string \<Rightarrow> string \<Rightarrow> string \<Rightarrow> string" where
  "replaceAll rx tmpl pre [] =
     (case rx [] of
        None \<Rightarrow> []
      | Some (n, caps) \<Rightarrow> getSubstitution [] pre [] caps tmpl)"
| "replaceAll rx tmpl pre (c # cs) =
     (case rx (c # cs) of
        None \<Rightarrow> c # replaceAll rx tmpl (pre @ [c]) cs
      | Some (n, caps) \<Rightarrow>
          (if n = 0
           then getSubstitution [] pre (c # cs) caps tmpl
                  @ c # replaceAll rx tmpl (pre @ [c]) cs
           else getSubstitution (take n (c # cs)) pre (drop n (c # cs)) caps tmpl
                  @ replaceAll rx tmpl (pre @ take n (c # cs)) (drop n (c # cs))))"
  by pat_completeness auto
termination
  by (relation "measure (\<lambda>(rx, tmpl, pre, s). length s)") auto


section \<open>Name sanitizer and asset locator\<close>

text \<open>The class \<open>[a-z0-9-]\<close>.\<close>

definition allowed_char :: "char \<Rightarrow> bool" where
  "allowed_char c \<longleftrightarrow>
     (let n = (of_char c :: nat)
      in (97 \<le> n \<and> n \<le> 122) \<or> (48 \<le> n \<and> n \<le> 57) \<or> n = 45)"

text \<open>
  \<open>name.trim().toLowerCase().replace(/[^a-z0-9-]/g, "")\<close>: each match is one code unit
  outside the class and the replacement is empty, so the result keeps the code units of
  the class, in order.
\<close>

definition sanitizedName :: "string \<Rightarrow> string" where
  "sanitizedName name = filter allowed_char (toLowerCase (trim name))"

datatype weight = Thin | Light | Regular | Bold | Fill | Duotone

fun weight_str :: "weight \<Rightarrow> string" where
  "weight_str Thin = ''thin''"
| "weight_str Light = ''light''"
| "weight_str Regular = ''regular''"
| "weight_str Bold = ''bold''"
| "weight_str Fill = ''fill''"
| "weight_str Duotone = ''duotone''"

definition PHOSPHOR_CORE_RAW_BASE :: string where
  "PHOSPHOR_CORE_RAW_BASE = ''https://raw.githubusercontent.com/phosphor-icons/core/main/assets''"

definition fileName :: "string \<Rightarrow> weight \<Rightarrow> string" where
  "fileName sn selectedWeight =
     (if selectedWeight = Regular then sn @ ''.svg''
      else sn @ ''-'' @ weight_str selectedWeight @ ''.svg'')"

definition url :: "string \<Rightarrow> weight \<Rightarrow> string" where
  "url sn selectedWeight =
     PHOSPHOR_CORE_RAW_BASE @ ''/'' @ weight_str selectedWeight @ ''/'' @ fileName sn selectedWeight"


section \<open>Style transformer\<close>

text \<open>The replacement templates the source builds: \<open>NAME="${value}"\<close>.\<close>

definition attr_template :: "string \<Rightarrow> string \<Rightarrow> string" where
  "attr_template a v = a @ ''='' @ [dq] @ v @ [dq]"

text \<open>The template \<open><svg$1 width="${size}" height="${size}">\<close>.\<close>

definition svg_size_template :: "string \<Rightarrow> string" where
  "svg_size_template sz =
     ''<svg$1 width='' @ [dq] @ sz @ [dq] @ '' height='' @ [dq] @ sz @ [dq] @ ''>''"

text \<open>
  \<open>if (color) { ... }\<close>: an omitted color and the empty string are both falsy. The
  branches for \<open>duotone\<close> and for the other weights are the same two statements.
\<close>

definition applyColor :: "weight \<Rightarrow> string option \<Rightarrow> string \<Rightarrow> string" where
  "applyColor selectedWeight color svgContent =
     (case color of
        None \<Rightarrow> svgContent
      | Some c \<Rightarrow>
          if c = [] then svgContent
          else if selectedWeight = Fill
          then replaceAll (match_attr ''fill'') (attr_template ''fill'' c) [] svgContent
          else if selectedWeight = Duotone
          then replaceAll (match_attr ''stroke'') (attr_template ''stroke'' c) []
                 (replaceAll (match_attr ''fill'') (attr_template ''fill'' c) [] svgContent)
          else replaceAll (match_attr ''stroke'') (attr_template ''stroke'' c) []
                 (replaceAll (match_attr ''fill'') (attr_template ''fill'' c) [] svgContent))"

text \<open>
  \<open>if (size) { ... }\<close>: an omitted size and the number 0 are falsy. A size is a
  JavaScript number; the comparisons of the source with 0 and 4096 are exact, so a finite
  number is modelled by the rational it denotes. Its rendering in a template literal,
  \<open>Number::toString\<close>, is a parameter \<open>numberToString\<close> of the model.
\<close>

definition applySize :: "(rat \<Rightarrow> string) \<Rightarrow> rat option \<Rightarrow> string \<Rightarrow> string" where
  "applySize numberToString size_opt svgContent =
     (case size_opt of
        None \<Rightarrow> svgContent
      | Some n \<Rightarrow>
          if n = 0 then svgContent
          else if \<not> includes_str svgContent ''width=''
          then replaceFirst match_svg_tag (svg_size_template (numberToString n)) [] svgContent
          else replaceFirst (match_attr ''height'') (attr_template ''height'' (numberToString n)) []
                 (replaceFirst (match_attr ''width'') (attr_template ''width'' (numberToString n)) []
                    svgContent))"

text \<open>
  \<open>size !== undefined && (typeof size !== "number" || size <= 0 || size > 4096)\<close>; the
  input schema admits numbers only.
\<close>

definition sizeInvalid :: "rat option \<Rightarrow> bool" where
  "sizeInvalid size_opt = (case size_opt of None \<Rightarrow> False | Some n \<Rightarrow> n \<le> 0 \<or> n > 4096)"

text \<open>\<open>color ? ... : ""\<close> and \<open>size ? ... : ""\<close> of the response headings.\<close>

definition colorInfo :: "string option \<Rightarrow> string option" where
  "colorInfo color = (case color of None \<Rightarrow> None | Some c \<Rightarrow> if c = [] then None else Some c)"

definition sizeInfo :: "(rat \<Rightarrow> string) \<Rightarrow> rat option \<Rightarrow> string option" where
  "sizeInfo numberToString size_opt =
     (case size_opt of None \<Rightarrow> None | Some n \<Rightarrow> if n = 0 then None else Some (numberToString n))"


section \<open>Asset fetcher\<close>

text \<open>
  One call of \<open>fetch\<close> either is aborted by the timeout, or throws another error (with
  its message), or yields a response with its \<open>ok\<close> flag and what \<open>response.text()\<close>
  does: return the body or throw. The network is a function from the number of fetches
  made so far in the request and the address to that outcome.
\<close>

datatype body_outcome = BodyText string | BodyThrew string

datatype fetch_outcome = Aborted | Threw string | Response bool body_outcome

type_synonym network = "nat \<Rightarrow> string \<Rightarrow> fetch_outcome"


section \<open>Request handlers\<close>

text \<open>
  A result stands for the text the handler returns, one constructor for each
  \<open>return\<close> of the source with the values its text is built from:
  \<^item> \<open>NameRequired\<close>: "Error: Icon name is required and must be a non-empty string."
  \<^item> \<open>InvalidIconName name\<close>: "Error: Invalid icon name '...'. Icon names must be in
    kebab-case ..."
  \<^item> \<open>SizeOutOfRange\<close>: "Error: Size must be a positive number between 1 and 4096 pixels."
  \<^item> \<open>RequestTimeout\<close>: "Error: Request timeout. ..."
  \<^item> \<open>IconNotFound sanitizedName selectedWeight\<close>: "Error: Icon '...' not found with
    weight '...'." and the suggestions, which the source computes from the sanitized name
    and the static catalog alone
  \<^item> \<open>InvalidSvgContent\<close>: "Error: Invalid SVG content received from the icon service."
  \<^item> \<open>IconSvg name selectedWeight colorInfo sizeInfo svgContent\<close>: the heading and the
    markup in a code block, without the error flag
  \<^item> \<open>ErrorFetchingIcon message\<close>: "Error fetching icon: ..." of the outer \<open>catch\<close>.
  All but \<open>IconSvg\<close> carry \<open>isError: true\<close>.
\<close>

datatype icon_result =
    NameRequired
  | InvalidIconName string
  | SizeOutOfRange
  | RequestTimeout
  | IconNotFound string weight
  | InvalidSvgContent
  | IconSvg string weight "string option" "string option" string
  | ErrorFetchingIcon string

text \<open>
  The handler of \<open>get-icon\<close>. It returns the result and the addresses it fetched.
\<close>

definition get_icon ::
  "weight \<Rightarrow> network \<Rightarrow> (rat \<Rightarrow> string) \<Rightarrow>
   string \<Rightarrow> weight option \<Rightarrow> string option \<Rightarrow> rat option \<Rightarrow> icon_result \<times> string list" where
  "get_icon defaultWeight fetch numberToString name weight_opt color size_opt =
     (if name = [] \<or> length (trim name) = 0 then (NameRequired, [])
      else if sanitizedName name \<noteq> toLowerCase name then (InvalidIconName name, [])
      else if sizeInvalid size_opt then (SizeOutOfRange, [])
      else
        (let selectedWeight = (case weight_opt of Some w \<Rightarrow> w | None \<Rightarrow> defaultWeight);
             u = url (sanitizedName name) selectedWeight
         in case fetch 0 u of
              Aborted \<Rightarrow> (RequestTimeout, [u])
            | Threw msg \<Rightarrow> (ErrorFetchingIcon msg, [u])
            | Response ok body \<Rightarrow>
                if \<not> ok then (IconNotFound (sanitizedName name) selectedWeight, [u])
                else
                  (case body of
                     BodyThrew msg \<Rightarrow> (ErrorFetchingIcon msg, [u])
                   | BodyText svgContent \<Rightarrow>
                       if svgContent = [] \<or> \<not> startsWith (trim svgContent) ''<svg''
                       then (InvalidSvgContent, [u])
                       else (IconSvg name selectedWeight (colorInfo color)
                               (sizeInfo numberToString size_opt)
                               (applySize numberToString size_opt
                                  (applyColor selectedWeight color svgContent)), [u]))))"

text \<open>
  The entries of a batch, one constructor for each \<open>results.push\<close>, each with the name
  as given:
  \<^item> \<open>EntryInvalidName name\<close>: "Error: Invalid icon name"
  \<^item> \<open>EntryTimeout name\<close>: "Error: Request timeout"
  \<^item> \<open>EntrySvg name svgContent\<close>: the markup in a code block
  \<^item> \<open>EntryNotFound name sanitizedName\<close>: "Not found" and the suggestions for the
    sanitized name
  \<^item> \<open>EntryError name message\<close>: "Error: ..." of the \<open>catch\<close> of the loop body.
\<close>

datatype batch_entry =
    EntryInvalidName string
  | EntryTimeout string
  | EntrySvg string string
  | EntryNotFound string string
  | EntryError string string

fun entry_name :: "batch_entry \<Rightarrow> string" where
  "entry_name (EntryInvalidName n) = n"
| "entry_name (EntryTimeout n) = n"
| "entry_name (EntrySvg n svg) = n"
| "entry_name (EntryNotFound n sn) = n"
| "entry_name (EntryError n msg) = n"

text \<open>
  The results of \<open>get-multiple-icons\<close>: the three argument errors ("'names' must be a
  non-empty array of icon names.", "Maximum 50 icons can be retrieved in a single batch
  request.", the size message) and the listing with its heading.
\<close>

datatype batch_result =
    NamesRequired
  | TooManyNames
  | BatchSizeOutOfRange
  | BatchResults weight "string option" "string option" "batch_entry list"

text \<open>
  The body of the loop for one name, at the \<open>k\<close>-th fetch of the request: the entry it
  pushes and the addresses it fetched (none or one).
\<close>

definition batch_item ::
  "weight \<Rightarrow> network \<Rightarrow> (rat \<Rightarrow> string) \<Rightarrow> string option \<Rightarrow> rat option \<Rightarrow>
   nat \<Rightarrow> string \<Rightarrow> batch_entry \<times> string list" where
  "batch_item selectedWeight fetch numberToString color size_opt k name =
     (if name = [] \<or> length (trim name) = 0 then (EntryInvalidName name, [])
      else
        (let u = url (sanitizedName name) selectedWeight
         in case fetch k u of
              Aborted \<Rightarrow> (EntryTimeout name, [u])
            | Threw msg \<Rightarrow> (EntryError name msg, [u])
            | Response ok body \<Rightarrow>
                if ok then
                  (case body of
                     BodyThrew msg \<Rightarrow> (EntryError name msg, [u])
                   | BodyText svgContent \<Rightarrow>
                       (EntrySvg name
                          (applySize numberToString size_opt
                             (applyColor selectedWeight color svgContent)), [u]))
                else (EntryNotFound name (sanitizedName name), [u])))"

text \<open>\<open>for (const name of names) { ... }\<close>, the entries in the order they are pushed.\<close>

fun batch_loop ::
  "weight \<Rightarrow> network \<Rightarrow> (rat \<Rightarrow> string) \<Rightarrow> string option \<Rightarrow> rat option \<Rightarrow>
   nat \<Rightarrow> string list \<Rightarrow> batch_entry list \<times> string list" where
  "batch_loop selectedWeight fetch numberToString color size_opt k [] = ([], [])"
| "batch_loop selectedWeight fetch numberToString color size_opt k (name # names) =
     (let (e, us) = batch_item selectedWeight fetch numberToString color size_opt k name;
          (es, us') = batch_loop selectedWeight fetch numberToString color size_opt
                        (k + length us) names
      in (e # es, us @ us'))"

definition get_multiple_icons ::
  "weight \<Rightarrow> network \<Rightarrow> (rat \<Rightarrow> string) \<Rightarrow>
   string list \<Rightarrow> weight option \<Rightarrow> string option \<Rightarrow> rat option \<Rightarrow> batch_result \<times> string list" where
  "get_multiple_icons defaultWeight fetch numberToString names weight_opt color size_opt =
     (if length names = 0 then (NamesRequired, [])
      else if length names > 50 then (TooManyNames, [])
      else if sizeInvalid size_opt then (BatchSizeOutOfRange, [])
      else
        (let selectedWeight = (case weight_opt of Some w \<Rightarrow> w | None \<Rightarrow> defaultWeight);
             (results, us) = batch_loop selectedWeight fetch numberToString color size_opt 0 names
         in (BatchResults selectedWeight (colorInfo color) (sizeInfo numberToString size_opt)
               results, us)))"

text \<open>
  The error taxonomy of the specification, read off the results: an \<open>InvalidArgument\<close>
  is a rejected name, size or list of names, \<open>InvalidUpstreamContent\<close> a response that
  does not look like markup.
\<close>

datatype error_kind = InvalidArgument | NotFound | Timeout | InvalidUpstreamContent | TransportError

fun icon_error :: "icon_result \<Rightarrow> error_kind option" where
  "icon_error NameRequired = Some InvalidArgument"
| "icon_error (InvalidIconName n) = Some InvalidArgument"
| "icon_error SizeOutOfRange = Some InvalidArgument"
| "icon_error RequestTimeout = Some Timeout"
| "icon_error (IconNotFound sn w) = Some NotFound"
| "icon_error InvalidSvgContent = Some InvalidUpstreamContent"
| "icon_error (IconSvg n w ci si svg) = None"
| "icon_error (ErrorFetchingIcon msg) = Some TransportError"

fun entry_error :: "batch_entry \<Rightarrow> error_kind option" where
  "entry_error (EntryInvalidName n) = Some InvalidArgument"
| "entry_error (EntryTimeout n) = Some Timeout"
| "entry_error (EntrySvg n svg) = None"
| "entry_error (EntryNotFound n sn) = Some NotFound"
| "entry_error (EntryError n msg) = Some TransportError"

fun batch_error :: "batch_result \<Rightarrow> error_kind option" where
  "batch_error NamesRequired = Some InvalidArgument"
| "batch_error TooManyNames = Some InvalidArgument"
| "batch_error BatchSizeOutOfRange = Some InvalidArgument"
| "batch_error (BatchResults w ci si es) = None"


section \<open>The transformations as the specification words them\<close>

text \<open>
  These definitions follow the specification, not the source; the theorems below compare
  them with the source's \<open>replace\<close> calls.

  \<open>attr_at a s\<close>: an attribute \<open>a="value"\<close> stands at the start of \<open>s\<close>; the result
  is the value (up to the next double quote) and the text after the closing quote.
\<close>

definition attr_at :: "string \<Rightarrow> string \<Rightarrow> (string \<times> string) option" where
  "attr_at a s =
     (let k = length a + 2
      in if take k s = a @ ''='' @ [dq] \<and> dq \<in> set (drop k s)
         then Some (takeWhile (\<lambda>c. c \<noteq> dq) (drop k s), tl (dropWhile (\<lambda>c. c \<noteq> dq) (drop k s)))
         else None)"

text \<open>"Rewrite every \<open>a="..."\<close> attribute value to the given value": all occurrences, left to right.\<close>

function rewrite_every :: "string \<Rightarrow> string \<Rightarrow> string \<Rightarrow> string" where
  "rewrite_every a v [] = []"
| "rewrite_every a v (c # cs) =
     (case attr_at a (c # cs) of
        Some (old, rest) \<Rightarrow> a @ ''='' @ [dq] @ v @ [dq] @ rewrite_every a v rest
      | None \<Rightarrow> c # rewrite_every a v cs)"
  by pat_completeness auto
termination
proof (relation "measure (\<lambda>(a, v, s). length s)")
  show "wf (measure (\<lambda>(a, v, s). length s))"
    by simp
next
  fix a v :: string and c :: char and cs :: string
  show "((a, v, cs), (a, v, c # cs)) \<in> measure (\<lambda>(a, v, s). length s)"
    by simp
next
  fix a v :: string and c :: char and cs :: string and x2 :: "string \<times> string" and old rest :: string
  assume at: "attr_at a (c # cs) = Some x2" and x2: "(old, rest) = x2"
  define r where "r = drop (length a + 2) (c # cs)"
  from at x2 have rest: "rest = tl (dropWhile (\<lambda>c. c \<noteq> dq) r)" and mem: "dq \<in> set r"
    by (auto simp: attr_at_def Let_def r_def split: if_splits)
  from mem have "dropWhile (\<lambda>c. c \<noteq> dq) r \<noteq> []"
    by (simp add: dropWhile_eq_Nil_conv)
  then have "length rest < length (dropWhile (\<lambda>c. c \<noteq> dq) r)"
    by (simp add: rest)
  also have "\<dots> \<le> length r"
    by (rule length_dropWhile_le)
  also have "\<dots> \<le> length (c # cs)"
    by (simp add: r_def)
  finally show "((a, v, rest), (a, v, c # cs)) \<in> measure (\<lambda>(a, v, s). length s)"
    by simp
qed


text \<open>
  \<open>attr_free a p m\<close>: no attribute \<open>a="..."\<close> begins inside \<open>p\<close> in the text
  \<open>p @ m\<close>, so an attribute at the start of \<open>m\<close> is the first occurrence there.
\<close>

fun attr_free :: "string \<Rightarrow> string \<Rightarrow> string \<Rightarrow> bool" where
  "attr_free a [] m = True"
| "attr_free a (c # p) m = (attr_at a (c # p @ m) = None \<and> attr_free a p m)"







text \<open>
  The number of fetches a batch has made before it comes to its \<open>i\<close>-th name: one for
  each earlier name that is not blank.
\<close>

definition fetches_before :: "string list \<Rightarrow> nat \<Rightarrow> nat" where
  "fetches_before names i =
     length (filter (\<lambda>n. \<not> (n = [] \<or> length (trim n) = 0)) (take i names))"


section \<open>Properties of the name sanitizer\<close>

lemma allowed_char_not_white: "allowed_char c \<Longrightarrow> \<not> isWhiteSpace c"
  by (auto simp: allowed_char_def isWhiteSpace_def)

lemma allowed_char_lower: "allowed_char c \<Longrightarrow> toLowerChar c = c"
  by (auto simp: allowed_char_def toLowerChar_def Let_def)

text \<open>The predicate \<open>allowed_char\<close> is the class \<open>[a-z0-9-]\<close>, character by character.\<close>

lemma allowed_char_set:
  "allowed_char c \<longleftrightarrow> c \<in> set ''abcdefghijklmnopqrstuvwxyz0123456789-''"
proof
  assume "c \<in> set ''abcdefghijklmnopqrstuvwxyz0123456789-''"
  then show "allowed_char c"
    by (auto simp: allowed_char_def)
next
  assume a: "allowed_char c"
  obtain b0 b1 b2 b3 b4 b5 b6 b7 where c: "c = Char b0 b1 b2 b3 b4 b5 b6 b7"
    by (cases c)
  show "c \<in> set ''abcdefghijklmnopqrstuvwxyz0123456789-''"
    using a unfolding c allowed_char_def
    by (cases b0; cases b1; cases b2; cases b3; cases b4; cases b5; cases b6; cases b7; simp)
qed

lemma trim_no_white:
  assumes "\<forall>c \<in> set s. \<not> isWhiteSpace c"
  shows "trim s = s"
proof -
  have front: "dropWhile isWhiteSpace s = s"
    using assms by (cases s) auto
  have rear: "dropWhile isWhiteSpace (rev s) = rev s"
    using assms by (cases "rev s") (auto dest: arg_cong[where f = set])
  show ?thesis
    by (simp add: trim_def front rear)
qed

lemma sanitizedName_allowed: "c \<in> set (sanitizedName s) \<Longrightarrow> allowed_char c"
  by (simp add: sanitizedName_def)

lemma sanitizedName_fixed:
  assumes "\<forall>c \<in> set t. allowed_char c"
  shows "sanitizedName t = t"
proof -
  have "trim t = t"
    using assms by (intro trim_no_white) (auto dest: allowed_char_not_white)
  moreover have "toLowerCase t = t"
    using assms by (auto simp: toLowerCase_def allowed_char_lower intro: map_idI)
  moreover have "filter allowed_char t = t"
    using assms by simp
  ultimately show ?thesis
    by (simp add: sanitizedName_def)
qed

text \<open>
  Claim C9. The name sanitizer (trim, lowercase, strip every character outside
  \<open>[a-z0-9-]\<close>) is idempotent, and every character of its output is a lowercase
  letter, a digit or a hyphen, so the output matches \<open>^[a-z0-9-]*$\<close>.
\<close>

theorem sanitizedName_idempotent_in_class:
  "sanitizedName (sanitizedName s) = sanitizedName s
   \<and> set (sanitizedName s) \<subseteq> set ''abcdefghijklmnopqrstuvwxyz0123456789-''"
proof
  show "sanitizedName (sanitizedName s) = sanitizedName s"
    by (rule sanitizedName_fixed) (simp add: sanitizedName_allowed)
next
  show "set (sanitizedName s) \<subseteq> set ''abcdefghijklmnopqrstuvwxyz0123456789-''"
    using sanitizedName_allowed allowed_char_set by blast
qed


section \<open>Properties of the asset locator\<close>

text \<open>
  Claim C5. For every sanitized name and every weight the address fetched is
  \<open>{base}/{weight}/{stem}.svg\<close>, where the stem is the bare name for the weight
  \<open>regular\<close> and the name followed by a hyphen and the weight for each of the five
  other weights; for the name \<open>heart\<close> the file is \<open>heart.svg\<close>, \<open>heart-bold.svg\<close> and
  \<open>heart-duotone.svg\<close> for the weights regular, bold and duotone.
\<close>

theorem url_filename_convention:
  "url n w = PHOSPHOR_CORE_RAW_BASE @ ''/'' @ weight_str w @ ''/''
               @ (if w = Regular then n else n @ ''-'' @ weight_str w) @ ''.svg''
   \<and> url n Regular = PHOSPHOR_CORE_RAW_BASE @ ''/regular/'' @ n @ ''.svg''
   \<and> url n Thin = PHOSPHOR_CORE_RAW_BASE @ ''/thin/'' @ n @ ''-thin.svg''
   \<and> url n Light = PHOSPHOR_CORE_RAW_BASE @ ''/light/'' @ n @ ''-light.svg''
   \<and> url n Bold = PHOSPHOR_CORE_RAW_BASE @ ''/bold/'' @ n @ ''-bold.svg''
   \<and> url n Fill = PHOSPHOR_CORE_RAW_BASE @ ''/fill/'' @ n @ ''-fill.svg''
   \<and> url n Duotone = PHOSPHOR_CORE_RAW_BASE @ ''/duotone/'' @ n @ ''-duotone.svg''
   \<and> fileName ''heart'' Regular = ''heart.svg''
   \<and> fileName ''heart'' Bold = ''heart-bold.svg''
   \<and> fileName ''heart'' Duotone = ''heart-duotone.svg''"
  by (simp add: url_def fileName_def)

text \<open>Both handlers fetch nothing but that address.\<close>

lemma get_icon_fetches:
  "set (snd (get_icon dw fetch nts name wopt color sz))
     \<subseteq> {url (sanitizedName name) (case wopt of Some w \<Rightarrow> w | None \<Rightarrow> dw)}"
  by (simp add: get_icon_def Let_def split: fetch_outcome.splits body_outcome.splits)

section \<open>The source's \<open>replace\<close> calls and the specification's transformations\<close>

lemma startsWith_take: "startsWith s p \<longleftrightarrow> take (length p) s = p"
  by (induction s p rule: startsWith.induct) auto


lemma rx_match_Lits:
  "rx_match (map Lit p @ ps) s =
     (if startsWith s p then map_option (\<lambda>n. length p + n) (rx_match ps (drop (length p) s))
      else None)"
proof (induction s p rule: startsWith.induct)
  case (1 s)
  then show ?case
    by (cases "rx_match ps s") simp_all
next
  case (2 p ps)
  then show ?case
    by simp
next
  case (3 c cs p ps')
  then show ?case
    by (cases "rx_match ps (drop (length ps') cs)") simp_all
qed

lemma rx_match_star:
  "rx_match [StarNot c, Lit c] r =
     (if length (takeWhile (\<lambda>x. x \<noteq> c) r) < length r
      then Some (length (takeWhile (\<lambda>x. x \<noteq> c) r) + 1) else None)"
  by (induction r) auto

lemma startsWith_length: "startsWith s p \<Longrightarrow> length p \<le> length s"
  by (induction s p rule: startsWith.induct) auto

text \<open>The matcher of an attribute is the expression \<open>a="[^"]*"\<close>.\<close>

lemma match_attr_regex:
  "match_attr a s =
     map_option (\<lambda>n. (n, [])) (rx_match (map Lit (a @ ''='' @ [dq]) @ [StarNot dq, Lit dq]) s)"
proof (cases "startsWith s (a @ ''='' @ [dq])")
  case False
  then show ?thesis
    by (simp only: rx_match_Lits match_attr_def Let_def if_False option.map)
next
  case True
  from startsWith_length[OF True]
  have "length (a @ ''='' @ [dq]) + k < length s \<longleftrightarrow> k < length (drop (length (a @ ''='' @ [dq])) s)" for k
    by auto
  then show ?thesis
    using True
    by (simp only: rx_match_Lits rx_match_star match_attr_def Let_def if_True) auto
qed

text \<open>
  The matcher of the root tag is the expression \<open><svg([^>]*)>\<close>; its group is the text
  between \<open><svg\<close> and the closing \<open>>\<close>.
\<close>

lemma match_svg_tag_regex:
  "match_svg_tag s =
     map_option (\<lambda>n. (n, [take (n - 5) (drop 4 s)]))
       (rx_match (map Lit ''<svg'' @ [StarNot (CHR ''>''), Lit (CHR ''>'')]) s)"
proof (cases "startsWith s ''<svg''")
  case False
  then show ?thesis
    by (simp only: rx_match_Lits match_svg_tag_def Let_def if_False option.map)
next
  case True
  have l: "length ''<svg'' = 4"
    by simp
  from startsWith_length[OF True]
  have "4 + k < length s \<longleftrightarrow> k < length (drop 4 s)" for k
    by auto
  moreover have "take (length (takeWhile P r)) r = takeWhile P r" for P and r :: string
    by (induction r) auto
  ultimately show ?thesis
    using True
    by (simp only: rx_match_Lits rx_match_star match_svg_tag_def Let_def if_True l) auto
qed


lemma takeWhile_shorter: "length (takeWhile P xs) < length xs \<longleftrightarrow> (\<exists>x \<in> set xs. \<not> P x)"
  by (induction xs) auto

lemma until_drop:
  assumes "x \<in> set r"
  shows "drop (Suc (length (takeWhile (\<lambda>c. c \<noteq> x) r))) r = tl (dropWhile (\<lambda>c. c \<noteq> x) r)"
  using assms by (induction r) auto

lemma take_eq_length: "take k s = p \<Longrightarrow> length p = k \<Longrightarrow> k \<le> length s"
  by (induction s arbitrary: k p) (auto split: nat.splits)

lemma attr_at_Nil: "attr_at a [] = None"
  by (simp add: attr_at_def)

text \<open>The expression \<open>a="[^"]*"\<close> matches exactly where an attribute stands.\<close>

lemma match_attr_None:
  assumes "attr_at a s = None"
  shows "match_attr a s = None"
proof (cases "take (length a + 2) s = a @ ''='' @ [dq]")
  case False
  then show ?thesis
    by (simp add: match_attr_def startsWith_take)
next
  case True
  let ?r = "drop (length a + 2) s"
  from assms True have "dq \<notin> set ?r"
    by (auto simp: attr_at_def Let_def split: if_splits)
  then have "\<not> length (takeWhile (\<lambda>c. c \<noteq> dq) ?r) < length ?r"
    using takeWhile_shorter[of "\<lambda>c. c \<noteq> dq" ?r] by simp
  then have "\<not> length a + 2 + length (takeWhile (\<lambda>c. c \<noteq> dq) ?r) < length s"
    by simp
  then show ?thesis
    by (simp add: match_attr_def Let_def)
qed

lemma match_attr_Some:
  assumes "attr_at a s = Some (old, rest)"
  shows "match_attr a s = Some (length a + 2 + length old + 1, [])"
proof -
  let ?r = "drop (length a + 2) s"
  from assms have t: "take (length a + 2) s = a @ ''='' @ [dq]" and mem: "dq \<in> set ?r"
    and old: "old = takeWhile (\<lambda>c. c \<noteq> dq) ?r"
    by (auto simp: attr_at_def Let_def split: if_splits)
  from t have le: "length a + 2 \<le> length s"
    by (intro take_eq_length) auto
  from mem have "length (takeWhile (\<lambda>c. c \<noteq> dq) ?r) < length ?r"
    using takeWhile_shorter[of "\<lambda>c. c \<noteq> dq" ?r] by simp
  then have "length a + 2 + length old < length s"
    using le by (simp add: old)
  then show ?thesis
    using t by (simp add: match_attr_def Let_def startsWith_take old)
qed

lemma attr_at_drop:
  assumes "attr_at a s = Some (old, rest)"
  shows "drop (length a + 2 + length old + 1) s = rest"
proof -
  let ?r = "drop (length a + 2) s"
  from assms have mem: "dq \<in> set ?r"
    and old: "old = takeWhile (\<lambda>c. c \<noteq> dq) ?r"
    and rest: "rest = tl (dropWhile (\<lambda>c. c \<noteq> dq) ?r)"
    by (auto simp: attr_at_def Let_def split: if_splits)
  have "drop (length a + 2 + length old + 1) s = drop (Suc (length old)) ?r"
    by (simp add: add.commute add.left_commute)
  also have "\<dots> = rest"
    unfolding old rest by (rule until_drop[OF mem])
  finally show ?thesis .
qed

text \<open>
  A template without one of the patterns \<open>$$\<close>, \<open>$&\<close>, \<open>$`\<close>, \<open>$'\<close> is inserted as it
  is when the expression has no group: every other dollar sign, \<open>$1\<close> included, is
  literal.
\<close>

lemma has_pattern_Cons: "c \<noteq> CHR ''$'' \<Longrightarrow> has_pattern (c # t) = has_pattern t"
  by (cases t) auto

lemma has_pattern_prefix: "CHR ''$'' \<notin> set a \<Longrightarrow> has_pattern (a @ t) = has_pattern t"
  by (induction a) (auto simp: has_pattern_Cons)

lemma has_pattern_snoc_dq: "has_pattern (v @ [dq]) = has_pattern v"
  by (induction v rule: has_pattern.induct) auto

lemma has_pattern_tail: "\<not> has_pattern (c # t) \<Longrightarrow> \<not> has_pattern t"
  by (cases t) auto

lemma has_pattern_attr_template:
  assumes "CHR ''$'' \<notin> set a"
  shows "has_pattern (attr_template a v) = has_pattern v"
proof -
  have "CHR ''$'' \<notin> set (a @ ''='' @ [dq])"
    using assms by simp
  then have "has_pattern ((a @ ''='' @ [dq]) @ (v @ [dq])) = has_pattern (v @ [dq])"
    by (rule has_pattern_prefix)
  then show ?thesis
    by (simp add: attr_template_def has_pattern_snoc_dq)
qed

lemma getSubstitution_no_pattern:
  "caps = [] \<Longrightarrow> \<not> has_pattern t \<Longrightarrow> getSubstitution m pre post caps t = t"
proof (induction m pre post caps t rule: getSubstitution.induct)
  case (1 m pre post caps)
  then show ?case
    by simp
next
  case (2 m pre post caps c)
  then show ?case
    by simp
next
  case (3 m pre post caps c d t)
  from "3.prems"(2) have dt: "\<not> has_pattern (d # t)"
    by (rule has_pattern_tail)
  then have t: "\<not> has_pattern t"
    by (rule has_pattern_tail)
  have t': "\<not> has_pattern t'" if "t = e # t'" for e t'
    using t that has_pattern_tail by blast
  show ?case
    using "3.IH" "3.prems" dt t t' by (auto split: list.splits)
qed

lemma attr_template_literal:
  assumes "CHR ''$'' \<notin> set a" and "\<not> has_pattern v"
  shows "getSubstitution m pre post [] (attr_template a v) = a @ ''='' @ [dq] @ v @ [dq]"
proof -
  have "\<not> has_pattern (attr_template a v)"
    using assms by (simp add: has_pattern_attr_template)
  then have "getSubstitution m pre post [] (attr_template a v) = attr_template a v"
    by (intro getSubstitution_no_pattern) simp_all
  then show ?thesis
    by (simp add: attr_template_def)
qed


text \<open>The global \<open>replace\<close> of an attribute rewrites every occurrence.\<close>

lemma replaceAll_attr:
  "CHR ''$'' \<notin> set a \<Longrightarrow> \<not> has_pattern v \<Longrightarrow>
   replaceAll (match_attr a) (attr_template a v) pre s = rewrite_every a v s"
proof (induction a v s arbitrary: pre rule: rewrite_every.induct)
  case (1 a v)
  then show ?case
    by (simp add: match_attr_None attr_at_Nil)
next
  case (2 a v c cs)
  show ?case
  proof (cases "attr_at a (c # cs)")
    case None
    then show ?thesis
      using 2 by (simp add: match_attr_None)
  next
    case (Some x)
    obtain old rest where x: "x = (old, rest)"
      by (cases x)
    from Some x have at: "attr_at a (c # cs) = Some (old, rest)"
      by simp
    have n0: "length a + 2 + length old + 1 \<noteq> 0"
      by simp
    have ih: "replaceAll (match_attr a) (attr_template a v) p rest = rewrite_every a v rest" for p
      using "2.IH"(2)[OF Some x[symmetric]] "2.prems" by simp
    show ?thesis
      by (simp only: replaceAll.simps rewrite_every.simps match_attr_Some[OF at] at
            attr_at_drop[OF at] attr_template_literal[OF "2.prems"] option.case prod.case n0 if_False
            append_assoc ih)
  qed
qed









lemma rewrite_every_decomp:
  "attr_free a p m \<Longrightarrow> attr_at a m = Some (old, q) \<Longrightarrow>
   rewrite_every a v (p @ m) = p @ a @ ''='' @ [dq] @ v @ [dq] @ rewrite_every a v q"
proof (induction p)
  case Nil
  then show ?case
    by (cases m) (simp_all add: attr_at_Nil)
next
  case (Cons c p)
  then show ?case
    by simp
qed


lemma rewrite_every_free: "attr_free a p [] \<Longrightarrow> rewrite_every a v p = p"
  by (induction p) auto







section \<open>Properties of the style transformer\<close>

text \<open>
  Claim C3, as the specification states it: whenever a color is supplied, every
  \<open>fill="..."\<close> value (and, for the weights other than \<open>fill\<close>, every \<open>stroke="..."\<close>
  value) is replaced by the color, and for the weight \<open>fill\<close> the stroke attributes are
  left untouched. The source does not do so in three cases. The empty string is falsy in
  \<open>if (color)\<close>, so nothing is rewritten, where the claim asks for \<open>fill=""\<close>. The color
  is used as a replacement template, so the color \<open>$&\<close> inserts the matched attribute
  instead of the two characters. And an occurrence runs from \<open>fill="\<close> to the next double
  quote wherever it stands: in \<open><path d='fill="' stroke="blue"/>\<close> it runs over the start
  of the stroke attribute, which is gone from the result for the weight \<open>fill\<close>.
\<close>

theorem applyColor_every_color_counterexample:
  \<open>applyColor Fill (Some '''') ''<path fill="none"/>'' = ''<path fill="none"/>''
   \<and> rewrite_every ''fill'' '''' ''<path fill="none"/>'' = ''<path fill=""/>''
   \<and> applyColor Fill (Some ''$&'') ''<path fill="none"/>'' = ''<path fill="fill="none""/>''
   \<and> rewrite_every ''fill'' ''$&'' ''<path fill="none"/>'' = ''<path fill="$&"/>''
   \<and> applyColor Fill (Some ''red'') ''<path d='fill="' stroke="blue"/>''
       = ''<path d='fill="red"blue"/>''
   \<and> includes_str ''<path d='fill="' stroke="blue"/>'' ''stroke="blue"''
   \<and> \<not> includes_str (applyColor Fill (Some ''red'') ''<path d='fill="' stroke="blue"/>'')
         ''stroke=''\<close>
  by (simp add: applyColor_def attr_template_def match_attr_def attr_at_def)

text \<open>
  Claim C3, amended. When the color supplied is the empty string, nothing is rewritten.
  When it is not empty and holds none of the replacement patterns \<open>$$\<close>, \<open>$&\<close>, \<open>$`\<close>,
  \<open>$'\<close>: for the weight \<open>fill\<close> every occurrence of \<open>fill="..."\<close> (read from left to
  right, from \<open>fill="\<close> to the next double quote) is replaced by \<open>fill="{color}"\<close> and the
  text outside these occurrences, stroke attributes included, is left as it is: the text
  before the first occurrence is unchanged, the rewrite goes on in the text after it, and
  a text without an occurrence is returned unchanged. For \<open>duotone\<close> and for each of
  \<open>thin\<close>, \<open>light\<close>, \<open>regular\<close> and \<open>bold\<close> every occurrence of \<open>fill="..."\<close> and then
  every occurrence of \<open>stroke="..."\<close> in the result is replaced in the same way.
\<close>

theorem applyColor_rewrites_every:
  assumes "\<not> has_pattern c"
  shows "applyColor w (Some c) svg =
           (if c = [] then svg
            else if w = Fill then rewrite_every ''fill'' c svg
            else rewrite_every ''stroke'' c (rewrite_every ''fill'' c svg))
         \<and> (c \<noteq> [] \<longrightarrow>
              (\<forall>p m old q.
                 attr_free ''fill'' p m \<and> attr_at ''fill'' m = Some (old, q) \<longrightarrow>
                 applyColor Fill (Some c) (p @ m)
                   = p @ ''fill='' @ [dq] @ c @ [dq] @ applyColor Fill (Some c) q)
              \<and> (\<forall>p. attr_free ''fill'' p [] \<longrightarrow> applyColor Fill (Some c) p = p))"
proof -
  have f: "replaceAll (match_attr ''fill'') (attr_template ''fill'' c) [] t = rewrite_every ''fill'' c t"
    for t
    using assms by (intro replaceAll_attr) auto
  have s: "replaceAll (match_attr ''stroke'') (attr_template ''stroke'' c) [] t = rewrite_every ''stroke'' c t"
    for t
    using assms by (intro replaceAll_attr) auto
  have eq: "applyColor w' (Some c) t =
           (if c = [] then t
            else if w' = Fill then rewrite_every ''fill'' c t
            else rewrite_every ''stroke'' c (rewrite_every ''fill'' c t))" for w' t
    by (simp add: applyColor_def f s)
  show ?thesis
    by (simp add: eq rewrite_every_decomp rewrite_every_free)
qed

theorem applyColor_rewrites_every_witness:
  \<open>\<not> has_pattern ''#FF0000'' \<and> \<not> has_pattern ''US$1''
   \<and> applyColor Fill (Some ''#FF0000'') ''<g fill="a" stroke="b"><path fill="currentColor"/></g>''
       = ''<g fill="#FF0000" stroke="b"><path fill="#FF0000"/></g>''
   \<and> applyColor Duotone (Some ''#FF0000'') ''<g fill="a" stroke="b"><path fill="currentColor"/></g>''
       = ''<g fill="#FF0000" stroke="#FF0000"><path fill="#FF0000"/></g>''
   \<and> applyColor Bold (Some ''US$1'') ''<g fill="a" stroke="b"><path fill="currentColor"/></g>''
       = ''<g fill="US$1" stroke="US$1"><path fill="US$1"/></g>''
   \<and> applyColor Fill (Some '''') ''<g fill="a" stroke="b"><path fill="currentColor"/></g>''
       = ''<g fill="a" stroke="b"><path fill="currentColor"/></g>''
   \<and> applyColor Fill (Some ''#FF0000'') ''<g stroke="b"/>'' = ''<g stroke="b"/>''\<close>
proof -
  let ?svg = \<open>''<g fill="a" stroke="b"><path fill="currentColor"/></g>''\<close>
  have h: "\<not> has_pattern ''#FF0000''" and h': "\<not> has_pattern ''US$1''" and h0: "\<not> has_pattern ''''"
    by simp_all
  have fr: \<open>attr_free ''fill'' ''<g stroke="b"/>'' []\<close>
    by (simp add: attr_at_def)
  have 5: \<open>applyColor Fill (Some ''#FF0000'') ''<g stroke="b"/>'' = ''<g stroke="b"/>''\<close>
    using applyColor_rewrites_every[OF h, THEN conjunct2, rule_format, THEN conjunct2, rule_format,
        OF _ fr]
    by simp
  show ?thesis
    using applyColor_rewrites_every[OF h, THEN conjunct1, of Fill ?svg]
      applyColor_rewrites_every[OF h, THEN conjunct1, of Duotone ?svg]
      applyColor_rewrites_every[OF h', THEN conjunct1, of Bold ?svg]
      applyColor_rewrites_every[OF h0, THEN conjunct1, of Fill ?svg] 5
    by (simp add: attr_at_def)
qed





section \<open>Name validation of \<open>get-icon\<close>\<close>

lemma white_not_allowed_lower: "isWhiteSpace c \<Longrightarrow> \<not> allowed_char (toLowerChar c)"
  by (auto simp: isWhiteSpace_def allowed_char_def toLowerChar_def)

lemma set_trim: "set (trim s) \<subseteq> set s"
proof
  fix c
  assume "c \<in> set (trim s)"
  then have "c \<in> set (dropWhile isWhiteSpace (rev (dropWhile isWhiteSpace s)))"
    by (simp add: trim_def)
  then have "c \<in> set (rev (dropWhile isWhiteSpace s))"
    by (rule set_dropWhileD)
  then show "c \<in> set s"
    by (auto dest: set_dropWhileD)
qed

text \<open>
  The handler of \<open>get-icon\<close> goes past its two name checks exactly for the names that
  are not empty and whose lowercase form, untrimmed, lies in the class \<open>[a-z0-9-]\<close>.
\<close>

lemma get_icon_name_checks:
  "\<not> (name = [] \<or> length (trim name) = 0) \<and> sanitizedName name = toLowerCase name
   \<longleftrightarrow> name \<noteq> [] \<and> (\<forall>c \<in> set (toLowerCase name). allowed_char c)"
proof
  assume a: "\<not> (name = [] \<or> length (trim name) = 0) \<and> sanitizedName name = toLowerCase name"
  then have "set (toLowerCase name) = set (sanitizedName name)"
    by simp
  moreover have "\<forall>c \<in> set (sanitizedName name). allowed_char c"
    by (simp add: sanitizedName_allowed)
  ultimately show "name \<noteq> [] \<and> (\<forall>c \<in> set (toLowerCase name). allowed_char c)"
    using a by simp
next
  assume a: "name \<noteq> [] \<and> (\<forall>c \<in> set (toLowerCase name). allowed_char c)"
  then have "\<forall>c \<in> set name. \<not> isWhiteSpace c"
    by (auto simp: toLowerCase_def dest: white_not_allowed_lower)
  then have t: "trim name = name"
    by (rule trim_no_white)
  have "filter allowed_char (toLowerCase name) = toLowerCase name"
    using a by simp
  then show "\<not> (name = [] \<or> length (trim name) = 0) \<and> sanitizedName name = toLowerCase name"
    using a by (simp add: t sanitizedName_def)
qed

text \<open>
  A name with a character outside the class after trimming and lowercasing is rejected
  by \<open>get-icon\<close> before any fetch.
\<close>

lemma get_icon_rejects_unclean_name:
  assumes "\<exists>c \<in> set (toLowerCase (trim name)). \<not> allowed_char c"
  shows "icon_error (fst (get_icon dw fetch nts name wopt color sz)) = Some InvalidArgument
         \<and> snd (get_icon dw fetch nts name wopt color sz) = []"
proof -
  from assms obtain c where c: "c \<in> set (toLowerCase (trim name))" "\<not> allowed_char c"
    by blast
  from c(1) have "c \<in> set (toLowerCase name)"
    using set_trim[of name] by (auto simp: toLowerCase_def)
  with c(2) have "sanitizedName name \<noteq> toLowerCase name"
    using sanitizedName_allowed by metis
  then show ?thesis
    by (simp add: get_icon_def)
qed


section \<open>The batch loop\<close>

lemma batch_item_name: "entry_name (fst (batch_item w fetch nts color sz k name)) = name"
  by (simp add: batch_item_def Let_def split: fetch_outcome.splits body_outcome.splits)

lemma batch_item_fetches:
  "length (snd (batch_item w fetch nts color sz k name))
     = (if name = [] \<or> length (trim name) = 0 then 0 else 1)"
  by (simp add: batch_item_def Let_def split: fetch_outcome.splits body_outcome.splits)

lemma fetches_before_0: "fetches_before names 0 = 0"
  by (simp add: fetches_before_def)

lemma fetches_before_Suc:
  "fetches_before (n # ns) (Suc i)
     = (if n = [] \<or> length (trim n) = 0 then 0 else 1) + fetches_before ns i"
  by (simp add: fetches_before_def)

lemma batch_loop_Cons:
  "batch_loop w fetch nts color sz k (n # ns) =
     (fst (batch_item w fetch nts color sz k n)
        # fst (batch_loop w fetch nts color sz
                 (k + length (snd (batch_item w fetch nts color sz k n))) ns),
      snd (batch_item w fetch nts color sz k n)
        @ snd (batch_loop w fetch nts color sz
                 (k + length (snd (batch_item w fetch nts color sz k n))) ns))"
  by (simp add: split_beta)

text \<open>
  The loop pushes, for the \<open>i\<close>-th name, the entry of the loop body for that name at
  its own fetch: the entries are one for each name, in the order of the names.
\<close>

lemma batch_loop_nth:
  "i < length names \<Longrightarrow>
   fst (batch_loop w fetch nts color sz k names) ! i
     = fst (batch_item w fetch nts color sz (k + fetches_before names i) (names ! i))"
proof (induction names arbitrary: k i)
  case Nil
  then show ?case
    by simp
next
  case (Cons n ns)
  show ?case
  proof (cases i)
    case 0
    then show ?thesis
      by (simp add: fetches_before_0 batch_loop_Cons del: batch_loop.simps)
  next
    case (Suc j)
    with Cons.prems have j: "j < length ns"
      by simp
    have "fst (batch_loop w fetch nts color sz k (n # ns)) ! i
            = fst (batch_loop w fetch nts color sz
                     (k + length (snd (batch_item w fetch nts color sz k n))) ns) ! j"
      by (simp add: Suc batch_loop_Cons del: batch_loop.simps)
    also have "\<dots> = fst (batch_item w fetch nts color sz
                        (k + length (snd (batch_item w fetch nts color sz k n))
                           + fetches_before ns j) (ns ! j))"
      by (rule Cons.IH[OF j])
    finally show ?thesis
      by (simp add: Suc batch_item_fetches fetches_before_Suc add.assoc)
  qed
qed

lemma batch_loop_length: "length (fst (batch_loop w fetch nts color sz k names)) = length names"
  by (induction names arbitrary: k) (simp_all add: batch_loop_Cons del: batch_loop.simps(2))

lemma batch_loop_names: "map entry_name (fst (batch_loop w fetch nts color sz k names)) = names"
  by (induction names arbitrary: k)
    (simp_all add: batch_loop_Cons batch_item_name del: batch_loop.simps(2))

lemma get_multiple_icons_results:
  assumes "names \<noteq> []" and "length names \<le> 50" and "\<not> sizeInvalid sz"
  shows "get_multiple_icons dw fetch nts names wopt color sz =
           (BatchResults (case wopt of Some w \<Rightarrow> w | None \<Rightarrow> dw) (colorInfo color) (sizeInfo nts sz)
              (fst (batch_loop (case wopt of Some w \<Rightarrow> w | None \<Rightarrow> dw) fetch nts color sz 0 names)),
            snd (batch_loop (case wopt of Some w \<Rightarrow> w | None \<Rightarrow> dw) fetch nts color sz 0 names))"
  using assms by (simp add: get_multiple_icons_def Let_def split_beta)


section \<open>Properties of the request handlers\<close>

text \<open>
  Claim C7. For every list of one to fifty names (and an acceptable size)
  \<open>get-multiple-icons\<close> returns a listing with exactly one entry for each name, in the
  order of the names. The entry of a name is what the loop body yields for that name and
  the outcome of its own fetch, whatever happened to the other names: a blank name gives
  an invalid-name entry, a timeout a timeout entry, another fetch error an error entry
  and a response that is not OK a not-found entry, and the loop goes on to the next name.
\<close>

theorem batch_one_entry_per_name_in_order:
  assumes "names \<noteq> []" and "length names \<le> 50" and "\<not> sizeInvalid sz"
    and "w = (case wopt of Some x \<Rightarrow> x | None \<Rightarrow> dw)"
  shows "\<exists>es us.
     get_multiple_icons dw fetch nts names wopt color sz
       = (BatchResults w (colorInfo color) (sizeInfo nts sz) es, us)
     \<and> length es = length names
     \<and> map entry_name es = names
     \<and> (\<forall>i<length names.
          es ! i = fst (batch_item w fetch nts color sz (fetches_before names i) (names ! i))
          \<and> (names ! i = [] \<or> length (trim (names ! i)) = 0 \<longrightarrow>
               es ! i = EntryInvalidName (names ! i))
          \<and> (\<not> (names ! i = [] \<or> length (trim (names ! i)) = 0) \<longrightarrow>
               (fetch (fetches_before names i) (url (sanitizedName (names ! i)) w) = Aborted \<longrightarrow>
                  es ! i = EntryTimeout (names ! i))
               \<and> (\<forall>msg. fetch (fetches_before names i) (url (sanitizedName (names ! i)) w) = Threw msg \<longrightarrow>
                  es ! i = EntryError (names ! i) msg)
               \<and> (\<forall>body. fetch (fetches_before names i) (url (sanitizedName (names ! i)) w)
                            = Response False body \<longrightarrow>
                  es ! i = EntryNotFound (names ! i) (sanitizedName (names ! i)))))"
proof -
  let ?es = "fst (batch_loop w fetch nts color sz 0 names)"
  let ?us = "snd (batch_loop w fetch nts color sz 0 names)"
  have res: "get_multiple_icons dw fetch nts names wopt color sz
               = (BatchResults w (colorInfo color) (sizeInfo nts sz) ?es, ?us)"
    using get_multiple_icons_results[OF assms(1-3)] assms(4) by simp
  have nth: "?es ! i = fst (batch_item w fetch nts color sz (fetches_before names i) (names ! i))"
    if "i < length names" for i
    using batch_loop_nth[OF that, of w fetch nts color sz 0] by simp
  have item: "?es ! i = fst (batch_item w fetch nts color sz (fetches_before names i) (names ! i))
          \<and> (names ! i = [] \<or> length (trim (names ! i)) = 0 \<longrightarrow>
               ?es ! i = EntryInvalidName (names ! i))
          \<and> (\<not> (names ! i = [] \<or> length (trim (names ! i)) = 0) \<longrightarrow>
               (fetch (fetches_before names i) (url (sanitizedName (names ! i)) w) = Aborted \<longrightarrow>
                  ?es ! i = EntryTimeout (names ! i))
               \<and> (\<forall>msg. fetch (fetches_before names i) (url (sanitizedName (names ! i)) w) = Threw msg \<longrightarrow>
                  ?es ! i = EntryError (names ! i) msg)
               \<and> (\<forall>body. fetch (fetches_before names i) (url (sanitizedName (names ! i)) w)
                            = Response False body \<longrightarrow>
                  ?es ! i = EntryNotFound (names ! i) (sanitizedName (names ! i))))"
    if "i < length names" for i
    unfolding nth[OF that] by (simp add: batch_item_def Let_def)
  show ?thesis
    using res batch_loop_length batch_loop_names item by blast
qed

theorem batch_one_entry_per_name_in_order_witness:
  \<open>[''heart'', '' '', ''no-such-icon'', ''star''] \<noteq> []
   \<and> length [''heart'', '' '', ''no-such-icon'', ''star''] \<le> 50
   \<and> \<not> sizeInvalid None
   \<and> fst (get_multiple_icons Regular
        (\<lambda>k u. if k = 0 then Response True (BodyText ''<svg></svg>'')
               else if k = 1 then Response False (BodyText '''') else Aborted)
        (\<lambda>r. '''') [''heart'', '' '', ''no-such-icon'', ''star''] None None None)
     = BatchResults Regular None None
         [EntrySvg ''heart'' ''<svg></svg>'', EntryInvalidName '' '',
          EntryNotFound ''no-such-icon'' ''no-such-icon'', EntryTimeout ''star'']\<close>
proof -
  let ?names = "[''heart'', '' '', ''no-such-icon'', ''star'']"
  let ?fetch = "\<lambda>(k::nat) (u::string). if k = 0 then Response True (BodyText ''<svg></svg>'')
               else if k = 1 then Response False (BodyText '''') else Aborted"
  have h: "?names \<noteq> []" "length ?names \<le> 50" "\<not> sizeInvalid None"
    "Regular = (case None of Some x \<Rightarrow> x | None \<Rightarrow> Regular)"
    by (simp_all add: sizeInvalid_def)
  have ev: "fst (get_multiple_icons Regular ?fetch (\<lambda>r. '''') ?names None None None)
     = BatchResults Regular None None
         [EntrySvg ''heart'' ''<svg></svg>'', EntryInvalidName '' '',
          EntryNotFound ''no-such-icon'' ''no-such-icon'', EntryTimeout ''star'']"
    by code_simp
  show ?thesis
    using batch_one_entry_per_name_in_order[OF h, of ?fetch "\<lambda>r. ''''" None]
    by (elim exE conjE) (simp (no_asm) add: ev sizeInvalid_def)
qed


text \<open>
  Claim C10. When both the color and the size are omitted the style transformation is
  the identity, so a successful result carries the body of the upstream response
  character for character: \<open>get-icon\<close> answers with the markup \<open>svg\<close> exactly when the
  name passes its checks and the fetch returned an OK response with the body \<open>svg\<close>
  (which looks like markup), and the \<open>i\<close>-th entry of \<open>get-multiple-icons\<close> is a markup
  entry with the text \<open>svg\<close> exactly when the \<open>i\<close>-th name is not blank and its fetch
  returned an OK response with the body \<open>svg\<close>.
\<close>

theorem no_color_no_size_identity:
  assumes "w = (case wopt of Some x \<Rightarrow> x | None \<Rightarrow> dw)"
  shows "applySize nts None (applyColor w None body) = body
    \<and> (fst (get_icon dw fetch nts name wopt None None) = IconSvg nm w2 ci si svg \<longleftrightarrow>
         \<not> (name = [] \<or> length (trim name) = 0) \<and> sanitizedName name = toLowerCase name
         \<and> nm = name \<and> w2 = w \<and> ci = None \<and> si = None
         \<and> fetch 0 (url (sanitizedName name) w) = Response True (BodyText svg)
         \<and> svg \<noteq> [] \<and> startsWith (trim svg) ''<svg'')
    \<and> (names \<noteq> [] \<and> length names \<le> 50 \<longrightarrow>
         (\<exists>es us.
            get_multiple_icons dw fetch nts names wopt None None = (BatchResults w None None es, us)
            \<and> (\<forall>i<length names. \<forall>nm svg.
                  es ! i = EntrySvg nm svg \<longleftrightarrow>
                    \<not> (names ! i = [] \<or> length (trim (names ! i)) = 0) \<and> nm = names ! i
                    \<and> fetch (fetches_before names i) (url (sanitizedName (names ! i)) w)
                         = Response True (BodyText svg))))"
proof (intro conjI impI)
  show "applySize nts None (applyColor w None body) = body"
    by (simp add: applySize_def applyColor_def)
next
  show "fst (get_icon dw fetch nts name wopt None None) = IconSvg nm w2 ci si svg \<longleftrightarrow>
         \<not> (name = [] \<or> length (trim name) = 0) \<and> sanitizedName name = toLowerCase name
         \<and> nm = name \<and> w2 = w \<and> ci = None \<and> si = None
         \<and> fetch 0 (url (sanitizedName name) w) = Response True (BodyText svg)
         \<and> svg \<noteq> [] \<and> startsWith (trim svg) ''<svg''"
    unfolding assms
    by (auto simp: get_icon_def Let_def sizeInvalid_def colorInfo_def sizeInfo_def
          applySize_def applyColor_def
        split: fetch_outcome.splits body_outcome.splits)
next
  assume n: "names \<noteq> [] \<and> length names \<le> 50"
  let ?es = "fst (batch_loop w fetch nts None None 0 names)"
  let ?us = "snd (batch_loop w fetch nts None None 0 names)"
  have res: "get_multiple_icons dw fetch nts names wopt None None = (BatchResults w None None ?es, ?us)"
    using get_multiple_icons_results[of names None dw fetch nts wopt None] n assms
    by (simp add: sizeInvalid_def colorInfo_def sizeInfo_def)
  have item: "?es ! i = EntrySvg nm svg \<longleftrightarrow>
                \<not> (names ! i = [] \<or> length (trim (names ! i)) = 0) \<and> nm = names ! i
                \<and> fetch (fetches_before names i) (url (sanitizedName (names ! i)) w)
                     = Response True (BodyText svg)"
    if "i < length names" for i nm svg
    using batch_loop_nth[OF that, of w fetch nts None None 0]
    by (auto simp: batch_item_def Let_def applySize_def applyColor_def
        split: fetch_outcome.splits body_outcome.splits)
  show "\<exists>es us.
            get_multiple_icons dw fetch nts names wopt None None = (BatchResults w None None es, us)
            \<and> (\<forall>i<length names. \<forall>nm svg.
                  es ! i = EntrySvg nm svg \<longleftrightarrow>
                    \<not> (names ! i = [] \<or> length (trim (names ! i)) = 0) \<and> nm = names ! i
                    \<and> fetch (fetches_before names i) (url (sanitizedName (names ! i)) w)
                         = Response True (BodyText svg))"
    using res item by blast
qed

theorem no_color_no_size_identity_witness:
  \<open>fst (get_icon Regular (\<lambda>k u. Response True (BodyText ''<svg fill="none"></svg>'')) (\<lambda>r. '''')
          ''heart'' None None None)
     = IconSvg ''heart'' Regular None None ''<svg fill="none"></svg>''
   \<and> [''heart''] \<noteq> [] \<and> length [''heart''] \<le> 50
   \<and> fst (get_multiple_icons Regular (\<lambda>k u. Response True (BodyText ''<svg fill="none"></svg>''))
            (\<lambda>r. '''') [''heart''] None None None)
     = BatchResults Regular None None [EntrySvg ''heart'' ''<svg fill="none"></svg>'']\<close>
proof -
  let ?fetch = \<open>\<lambda>(k::nat) (u::string). Response True (BodyText ''<svg fill="none"></svg>'')\<close>
  have w: "Regular = (case None of Some x \<Rightarrow> x | None \<Rightarrow> Regular)"
    by simp
  note t = no_color_no_size_identity[OF w, where fetch = ?fetch and nts = "\<lambda>r. ''''"]
  have v: "\<not> (''heart'' = [] \<or> length (trim ''heart'') = 0) \<and> sanitizedName ''heart'' = toLowerCase ''heart''"
    by (simp add: sanitizedName_def trim_def isWhiteSpace_def toLowerCase_def toLowerChar_def
          allowed_char_def)
  have b: \<open>''<svg fill="none"></svg>'' \<noteq> [] \<and> startsWith (trim ''<svg fill="none"></svg>'') ''<svg''\<close>
    by (simp add: trim_def isWhiteSpace_def)
  have 1: \<open>fst (get_icon Regular ?fetch (\<lambda>r. '''') ''heart'' None None None)
     = IconSvg ''heart'' Regular None None ''<svg fill="none"></svg>''\<close>
    using t[THEN conjunct2, THEN conjunct1, of \<open>''heart''\<close> \<open>''heart''\<close> Regular None None
        \<open>''<svg fill="none"></svg>''\<close>] v b
    by simp
  have 2: \<open>fst (get_multiple_icons Regular ?fetch (\<lambda>r. '''') [''heart''] None None None)
     = BatchResults Regular None None [EntrySvg ''heart'' ''<svg fill="none"></svg>'']\<close>
  proof -
    from t[THEN conjunct2, THEN conjunct2, of \<open>[''heart'']\<close>]
    obtain es us where r: "get_multiple_icons Regular ?fetch (\<lambda>r. '''') [''heart''] None None None
            = (BatchResults Regular None None es, us)"
      and e: \<open>\<forall>i<length [''heart'']. \<forall>nm svg.
                  es ! i = EntrySvg nm svg \<longleftrightarrow>
                    \<not> ([''heart''] ! i = [] \<or> length (trim ([''heart''] ! i)) = 0) \<and> nm = [''heart''] ! i
                    \<and> ?fetch (fetches_before [''heart''] i) (url (sanitizedName ([''heart''] ! i)) Regular)
                         = Response True (BodyText svg)\<close>
      by auto
    from e[rule_format, of 0 \<open>''heart''\<close> \<open>''<svg fill="none"></svg>''\<close>] v
    have e0: \<open>es ! 0 = EntrySvg ''heart'' ''<svg fill="none"></svg>''\<close>
      by simp
    have "length es = 1"
      using r get_multiple_icons_results[of \<open>[''heart'']\<close> None Regular ?fetch "\<lambda>r. ''''" None None]
        batch_loop_length[of Regular ?fetch "\<lambda>r. ''''" None None 0 \<open>[''heart'']\<close>]
      by (simp add: sizeInvalid_def)
    with e0 have \<open>es = [EntrySvg ''heart'' ''<svg fill="none"></svg>'']\<close>
      by (cases es) auto
    with r show ?thesis
      by simp
  qed
  show ?thesis
    using 1 2 by simp
qed


text \<open>
  Claim C8, as the specification states it: a request with a size fails with an invalid
  argument exactly when the size is not an integer from 1 to 4096. The schema admits any
  number and the check is \<open>size <= 0 || size > 4096\<close>, so the size 2.5 (not an integer) is
  accepted by both handlers.
\<close>

theorem size_not_integer_counterexample:
  \<open>(5 / 2 :: rat) \<notin> \<int>
   \<and> icon_error (fst (get_icon Regular (\<lambda>k u. Response True (BodyText ''<svg></svg>''))
                        (\<lambda>r. ''2.5'') ''heart'' None None (Some (5 / 2)))) = None
   \<and> batch_error (fst (get_multiple_icons Regular (\<lambda>k u. Response True (BodyText ''<svg></svg>''))
                         (\<lambda>r. ''2.5'') [''heart''] None None (Some (5 / 2)))) = None\<close>
proof -
  have "(5 / 2 :: rat) \<notin> \<int>"
  proof
    assume "(5 / 2 :: rat) \<in> \<int>"
    then obtain k :: int where "(5 / 2 :: rat) = of_int k"
      by (auto elim: Ints_cases)
    then have "(of_int 5 :: rat) = of_int (2 * k)"
      by simp
    then have "5 = 2 * k"
      by (simp only: of_int_eq_iff)
    then show False
      by presburger
  qed
  moreover have \<open>icon_error (fst (get_icon Regular (\<lambda>k u. Response True (BodyText ''<svg></svg>''))
                        (\<lambda>r. ''2.5'') ''heart'' None None (Some (5 / 2)))) = None\<close>
    by (simp add: get_icon_def sanitizedName_def trim_def isWhiteSpace_def toLowerCase_def
          toLowerChar_def allowed_char_def sizeInvalid_def)
  moreover have \<open>batch_error (fst (get_multiple_icons Regular
                         (\<lambda>k u. Response True (BodyText ''<svg></svg>''))
                         (\<lambda>r. ''2.5'') [''heart''] None None (Some (5 / 2)))) = None\<close>
    by (simp add: get_multiple_icons_def sizeInvalid_def split_beta)
  ultimately show ?thesis
    by simp
qed

text \<open>
  Claim C8, amended. A request with a size fails with an invalid argument, before any
  fetch, when the size is at most 0 or greater than 4096, in \<open>get-icon\<close> and in
  \<open>get-multiple-icons\<close>. When the size is a number from 1 to 4096, an integer or not,
  the size check passes: \<open>get-icon\<close> with a name that passes its checks goes on to fetch
  the asset, and \<open>get-multiple-icons\<close> with one to fifty names returns its listing.
\<close>

theorem size_validation_bounds:
  assumes "w = (case wopt of Some x \<Rightarrow> x | None \<Rightarrow> dw)"
  shows "(n \<le> 0 \<or> 4096 < n \<longrightarrow>
            icon_error (fst (get_icon dw fetch nts name wopt color (Some n))) = Some InvalidArgument
          \<and> snd (get_icon dw fetch nts name wopt color (Some n)) = []
          \<and> batch_error (fst (get_multiple_icons dw fetch nts names wopt color (Some n)))
              = Some InvalidArgument
          \<and> snd (get_multiple_icons dw fetch nts names wopt color (Some n)) = [])
     \<and> (1 \<le> n \<and> n \<le> 4096 \<longrightarrow>
           (\<not> (name = [] \<or> length (trim name) = 0) \<and> sanitizedName name = toLowerCase name \<longrightarrow>
              fst (get_icon dw fetch nts name wopt color (Some n)) \<noteq> SizeOutOfRange
            \<and> snd (get_icon dw fetch nts name wopt color (Some n)) = [url (sanitizedName name) w])
         \<and> (names \<noteq> [] \<and> length names \<le> 50 \<longrightarrow>
              (\<exists>es us. get_multiple_icons dw fetch nts names wopt color (Some n)
                 = (BatchResults w (colorInfo color) (Some (nts n)) es, us))))"
proof (intro conjI impI)
  assume bad: "n \<le> 0 \<or> 4096 < n"
  then have inv: "sizeInvalid (Some n)"
    by (simp add: sizeInvalid_def)
  show "icon_error (fst (get_icon dw fetch nts name wopt color (Some n))) = Some InvalidArgument"
    using inv by (simp add: get_icon_def)
  show "snd (get_icon dw fetch nts name wopt color (Some n)) = []"
    using inv by (simp add: get_icon_def)
  show "batch_error (fst (get_multiple_icons dw fetch nts names wopt color (Some n)))
          = Some InvalidArgument"
    using inv by (simp add: get_multiple_icons_def)
  show "snd (get_multiple_icons dw fetch nts names wopt color (Some n)) = []"
    using inv by (simp add: get_multiple_icons_def)
next
  assume ok: "1 \<le> n \<and> n \<le> 4096"
    and nm: "\<not> (name = [] \<or> length (trim name) = 0) \<and> sanitizedName name = toLowerCase name"
  from ok have val: "\<not> sizeInvalid (Some n)"
    by (simp add: sizeInvalid_def)
  show "fst (get_icon dw fetch nts name wopt color (Some n)) \<noteq> SizeOutOfRange"
    using val nm
    by (simp add: get_icon_def Let_def split: fetch_outcome.splits body_outcome.splits)
  show "snd (get_icon dw fetch nts name wopt color (Some n)) = [url (sanitizedName name) w]"
    using val nm assms
    by (simp add: get_icon_def Let_def split: fetch_outcome.splits body_outcome.splits)
next
  assume ok: "1 \<le> n \<and> n \<le> 4096" and ns: "names \<noteq> [] \<and> length names \<le> 50"
  from ok have val: "\<not> sizeInvalid (Some n)" and n0: "n \<noteq> 0"
    by (simp_all add: sizeInvalid_def)
  show "\<exists>es us. get_multiple_icons dw fetch nts names wopt color (Some n)
                 = (BatchResults w (colorInfo color) (Some (nts n)) es, us)"
    using get_multiple_icons_results[of names "Some n" dw fetch nts wopt color] ns val n0 assms
    by (simp add: sizeInfo_def)
qed

theorem size_validation_bounds_witness:
  \<open>icon_error (fst (get_icon Regular (\<lambda>k u. Aborted) (\<lambda>r. '''') ''heart'' None None (Some 0)))
     = Some InvalidArgument
   \<and> batch_error (fst (get_multiple_icons Regular (\<lambda>k u. Aborted) (\<lambda>r. '''') [''heart''] None None
                         (Some 4097))) = Some InvalidArgument
   \<and> snd (get_icon Regular (\<lambda>k u. Aborted) (\<lambda>r. '''') ''heart'' None None (Some 4096))
     = [url ''heart'' Regular]
   \<and> snd (get_icon Regular (\<lambda>k u. Aborted) (\<lambda>r. '''') ''heart'' None None (Some 1))
     = [url ''heart'' Regular]\<close>
proof -
  have w: "Regular = (case None of Some x \<Rightarrow> x | None \<Rightarrow> Regular)"
    by simp
  note t = size_validation_bounds[OF w, where fetch = "\<lambda>k u. Aborted" and nts = "\<lambda>r. ''''"
      and name = "''heart''" and names = "[''heart'']" and color = None]
  have v: "\<not> (''heart'' = [] \<or> length (trim ''heart'') = 0) \<and> sanitizedName ''heart'' = toLowerCase ''heart''"
    and s: "sanitizedName ''heart'' = ''heart''"
    by (simp_all add: sanitizedName_def trim_def isWhiteSpace_def toLowerCase_def toLowerChar_def
          allowed_char_def)
  show ?thesis
    using t[of 0, THEN conjunct1] t[of 4097, THEN conjunct1]
      t[of 4096, THEN conjunct2] t[of 1, THEN conjunct2] v
    by (simp add: s)
qed


section \<open>Where the source departs from the specification\<close>

text \<open>
  Claim C1 (the source departs from it). The name \<open>hea rt!\<close> has characters outside
  \<open>[a-z0-9-]\<close>. The handler of \<open>get-icon\<close> rejects it before any fetch (lemma
  \<open>get_icon_rejects_unclean_name\<close>), but the loop of \<open>get-multiple-icons\<close> has no such
  check: it fetches the asset of the partially cleaned name \<open>heart\<close> and lists its markup
  under the name as given.
\<close>

theorem batch_fetches_partially_cleaned_name:
  \<open>get_multiple_icons Regular
     (\<lambda>k u. if u = ''https://raw.githubusercontent.com/phosphor-icons/core/main/assets/regular/heart.svg''
            then Response True (BodyText ''<svg></svg>'') else Response False (BodyText ''''))
     (\<lambda>r. '''') [''hea rt!''] None None None
   = (BatchResults Regular None None [EntrySvg ''hea rt!'' ''<svg></svg>''],
      [''https://raw.githubusercontent.com/phosphor-icons/core/main/assets/regular/heart.svg''])
   \<and> get_icon Regular
     (\<lambda>k u. if u = ''https://raw.githubusercontent.com/phosphor-icons/core/main/assets/regular/heart.svg''
            then Response True (BodyText ''<svg></svg>'') else Response False (BodyText ''''))
     (\<lambda>r. '''') ''hea rt!'' None None None
   = (InvalidIconName ''hea rt!'', [])\<close>
  by (simp add: get_multiple_icons_def get_icon_def batch_item_def url_def fileName_def
        PHOSPHOR_CORE_RAW_BASE_def sanitizedName_def trim_def isWhiteSpace_def toLowerCase_def
        toLowerChar_def allowed_char_def sizeInvalid_def colorInfo_def sizeInfo_def
        applyColor_def applySize_def)

text \<open>
  Claim C2 (the source departs from it). The name \<open> heart\<close>, with a leading space, is
  \<open>heart\<close> once trimmed and lowercased, all in the class. The source trims the name
  before it strips it, but compares the result with \<open>name.toLowerCase()\<close>, untrimmed: the
  two differ in the space, and the name is rejected, whatever the other arguments. The
  loop of \<open>get-multiple-icons\<close> trims the same name and fetches the asset of \<open>heart\<close>.
\<close>

theorem get_icon_rejects_padded_name:
  "toLowerCase (trim '' heart'') = ''heart''
   \<and> sanitizedName '' heart'' = ''heart''
   \<and> get_icon dw fetch nts '' heart'' wopt color sz = (InvalidIconName '' heart'', [])
   \<and> snd (batch_item w fetch nts color sz k '' heart'') = [url ''heart'' w]"
  by (simp add: get_icon_def batch_item_def sanitizedName_def trim_def isWhiteSpace_def
        toLowerCase_def toLowerChar_def allowed_char_def Let_def
      split: fetch_outcome.splits body_outcome.splits)

text \<open>
  Claim C6 (the source departs from it). An OK response whose body is not markup is an
  \<open>InvalidSvgContent\<close> error in \<open>get-icon\<close>, but the loop of \<open>get-multiple-icons\<close> has no
  such check: it lists the body as the markup of the icon.
\<close>

theorem batch_returns_body_that_is_not_markup:
  "get_multiple_icons Regular (\<lambda>k u. Response True (BodyText ''404: Not Found'')) (\<lambda>r. '''')
     [''heart''] None None None
   = (BatchResults Regular None None [EntrySvg ''heart'' ''404: Not Found''],
      [''https://raw.githubusercontent.com/phosphor-icons/core/main/assets/regular/heart.svg''])
   \<and> entry_error (EntrySvg ''heart'' ''404: Not Found'') = None
   \<and> get_icon Regular (\<lambda>k u. Response True (BodyText ''404: Not Found'')) (\<lambda>r. '''')
       ''heart'' None None None
   = (InvalidSvgContent,
      [''https://raw.githubusercontent.com/phosphor-icons/core/main/assets/regular/heart.svg''])"
  by (simp add: get_multiple_icons_def get_icon_def batch_item_def url_def fileName_def
        PHOSPHOR_CORE_RAW_BASE_def sanitizedName_def trim_def isWhiteSpace_def toLowerCase_def
        toLowerChar_def allowed_char_def sizeInvalid_def colorInfo_def sizeInfo_def
        applyColor_def applySize_def)

text \<open>In \<open>get-icon\<close> every OK response whose body does not start with the root tag is refused.\<close>

lemma get_icon_refuses_body_that_is_not_markup:
  assumes "\<not> (name = [] \<or> length (trim name) = 0)" and "sanitizedName name = toLowerCase name"
    and "\<not> sizeInvalid sz"
    and "fetch 0 (url (sanitizedName name) (case wopt of Some x \<Rightarrow> x | None \<Rightarrow> dw))
           = Response True (BodyText body)"
    and "\<not> startsWith (trim body) ''<svg''"
  shows "fst (get_icon dw fetch nts name wopt color sz) = InvalidSvgContent"
  using assms by (simp add: get_icon_def Let_def)

end
